theory Spec2Isabelle
  imports Main "HOL-Library.Sublist" "HOL-Library.AList"
begin

section \<open>JavaScript values\<close>

text \<open>
  The bridge (\<^verbatim>\<open>server.js\<close>, lines 1 to 290: the draft with calendar routing by
  organizer and user, fuzzy label matching and drop-down normalization; the two earlier
  drafts that follow it in the file are not modelled) works on parsed JSON. A value is one of JSON's,
  or \<^verbatim>\<open>undefined\<close> (what reading a missing property gives), or one of the two built-in
  objects every object literal inherits from and that a computed property read can
  reach: the function \<^verbatim>\<open>Object\<close> (as \<^verbatim>\<open>constructor\<close>) and \<^verbatim>\<open>Object.prototype\<close>
  (as \<^verbatim>\<open>__proto__\<close>).

  A number is carried as the text \<^verbatim>\<open>String\<close> gives for it: the program only tests a
  number for truthiness and converts it to text, and \<^verbatim>\<open>0\<close> and \<^verbatim>\<open>-0\<close> (both falsy)
  have the same text. An object lists its own properties in the order in which
  \<^verbatim>\<open>for ... in\<close> visits them.

  Strings are HOL strings: a character is a UTF-16 code unit below 256 (the Latin-1
  range), and text with a code unit beyond it is outside the model. On that range white
  space, word characters and lower-casing are JavaScript's.
\<close>

datatype js =
    JUndefined
  | JNull
  | JBool bool
  | JNum string
  | JStr string
  | JArr "js list"
  | JObj "(string \<times> js) list"
  | JObjectCtor
  | JObjectProto

text \<open>What the program can throw: a \<^verbatim>\<open>TypeError\<close> of the engine (its message is the
  engine's own; the model carries a short description in its place), the error
  \<^verbatim>\<open>ghlRequest\<close> builds from a response that is not ok (status and parsed body), and a
  rejected \<^verbatim>\<open>fetch\<close>.\<close>

datatype error =
    TypeError string
  | GHLApiError nat js
  | FetchError string

fun truthy :: "js \<Rightarrow> bool" where
  "truthy JUndefined = False"
| "truthy JNull = False"
| "truthy (JBool b) = b"
| "truthy (JNum r) = (r \<noteq> ''0'' \<and> r \<noteq> ''NaN'')"
| "truthy (JStr s) = (s \<noteq> [])"
| "truthy (JArr xs) = True"
| "truthy (JObj kvs) = True"
| "truthy JObjectCtor = True"
| "truthy JObjectProto = True"

text \<open>\<^verbatim>\<open>a || b\<close>. Every right operand in the source is a property read or a literal.\<close>

definition js_or :: "js \<Rightarrow> js \<Rightarrow> js" where
  "js_or a b = (if truthy a then a else b)"

definition nullish :: "js \<Rightarrow> bool" where
  "nullish v = (v = JUndefined \<or> v = JNull)"

text \<open>\<^verbatim>\<open>v.k\<close> on a value that is neither null nor undefined. The names the program reads
  with a fixed key (\<^verbatim>\<open>attendees\<close>, \<^verbatim>\<open>responses\<close>, \<^verbatim>\<open>name\<close>, \<^verbatim>\<open>email\<close>, \<^verbatim>\<open>phone\<close>,
  \<^verbatim>\<open>value\<close>, \<^verbatim>\<open>label\<close>, \<^verbatim>\<open>invitee\<close>, \<^verbatim>\<open>organizer\<close>, \<^verbatim>\<open>payload\<close>, \<^verbatim>\<open>id\<close>, ...) are on
  no built-in prototype, so only an object's own property can answer.\<close>

fun get :: "js \<Rightarrow> string \<Rightarrow> js" where
  "get (JObj kvs) k = (case map_of kvs k of Some v \<Rightarrow> v | None \<Rightarrow> JUndefined)"
| "get v k = JUndefined"

text \<open>\<^verbatim>\<open>v?.k\<close>\<close>

definition opt_get :: "js \<Rightarrow> string \<Rightarrow> js" where
  "opt_get v k = (if nullish v then JUndefined else get v k)"

text \<open>The values \<^verbatim>\<open>responses[key]\<close> that \<^verbatim>\<open>for (const key in responses)\<close> visits, in
  order: an object's own properties, an array's elements, a string's characters;
  a number or a boolean has none.\<close>

fun for_in_values :: "js \<Rightarrow> js list" where
  "for_in_values (JObj kvs) = map (\<lambda>k. get (JObj kvs) k) (map fst kvs)"
| "for_in_values (JArr xs) = xs"
| "for_in_values (JStr s) = map (\<lambda>c. JStr [c]) s"
| "for_in_values v = []"

text \<open>\<^verbatim>\<open>String(v)\<close> and a template literal's \<^verbatim>\<open>${v}\<close>. An object with an own property
  \<^verbatim>\<open>toString\<close> (never callable in parsed JSON) has no primitive value: TypeError.
  An array joins its elements with commas, null and undefined as the empty text.\<close>

fun to_String :: "js \<Rightarrow> error + string"
  and join_elements :: "js list \<Rightarrow> error + string" where
  "to_String JUndefined = Inr ''undefined''"
| "to_String JNull = Inr ''null''"
| "to_String (JBool b) = Inr (if b then ''true'' else ''false'')"
| "to_String (JNum r) = Inr r"
| "to_String (JStr s) = Inr s"
| "to_String (JArr xs) = join_elements xs"
| "to_String (JObj kvs) =
     (if map_of kvs ''toString'' \<noteq> None
      then Inl (TypeError ''Cannot convert object to primitive value'')
      else Inr ''[object Object]'')"
| "to_String JObjectCtor = Inr ''function Object() { [native code] }''"
| "to_String JObjectProto = Inr ''[object Object]''"
| "join_elements [] = Inr []"
| "join_elements (x # xs) =
     (case (if nullish x then Inr [] else to_String x) of
        Inl e \<Rightarrow> Inl e
      | Inr s \<Rightarrow>
          (if xs = [] then Inr s
           else (case join_elements xs of
                   Inl e \<Rightarrow> Inl e
                 | Inr t \<Rightarrow> Inr (s @ '','' @ t))))"

section \<open>Strings\<close>

text \<open>The white space of \<^verbatim>\<open>trim\<close> and of \<^verbatim>\<open>\s\<close>: tab, line feed, vertical tab, form feed,
  carriage return, space and the no-break space U+00A0.\<close>

definition is_space :: "char \<Rightarrow> bool" where
  "is_space c =
     (c \<in> set [CHR 0x09, CHR 0x0A, CHR 0x0B, CHR 0x0C, CHR 0x0D, CHR '' '', CHR 0xA0])"

definition is_upper :: "char \<Rightarrow> bool" where
  "is_upper c = (c \<in> set ''ABCDEFGHIJKLMNOPQRSTUVWXYZ'')"

definition is_lower :: "char \<Rightarrow> bool" where
  "is_lower c = (c \<in> set ''abcdefghijklmnopqrstuvwxyz'')"

definition is_digit :: "char \<Rightarrow> bool" where
  "is_digit c = (c \<in> set ''0123456789'')"

text \<open>\<^verbatim>\<open>\w\<close>\<close>

definition is_word :: "char \<Rightarrow> bool" where
  "is_word c = (is_upper c \<or> is_lower c \<or> is_digit c \<or> c = CHR ''_'')"

text \<open>\<^verbatim>\<open>toLowerCase\<close> on a code unit below 256: the letters A to Z (65 to 90) and
  U+00C0 to U+00DE but for the multiplication sign U+00D7 (192 to 214 and 216 to 222)
  have their lower-case form 32 units up; every other unit is its own.\<close>

definition lower_char :: "char \<Rightarrow> char" where
  "lower_char c =
     (let n = (of_char c :: nat)
      in if (65 \<le> n \<and> n \<le> 90) \<or> (192 \<le> n \<and> n \<le> 214) \<or> (216 \<le> n \<and> n \<le> 222)
         then char_of (n + 32) else c)"

text \<open>Upper-casing is used for one test only, whether the upper-cased event contains
  \<^verbatim>\<open>PING\<close>. The upper-case forms of the code units from 128 on (among them \<^verbatim>\<open>SS\<close> for
  U+00DF) have no letter of \<^verbatim>\<open>PING\<close> but S's, so leaving those units as they are
  does not change the test.\<close>

definition upper_char :: "char \<Rightarrow> char" where
  "upper_char c =
     (case map_of (zip ''abcdefghijklmnopqrstuvwxyz'' ''ABCDEFGHIJKLMNOPQRSTUVWXYZ'') c of
        Some d \<Rightarrow> d
      | None \<Rightarrow> c)"

definition toLowerCase :: "string \<Rightarrow> string" where
  "toLowerCase s = map lower_char s"

definition toUpperCase :: "string \<Rightarrow> string" where
  "toUpperCase s = map upper_char s"

definition trim :: "string \<Rightarrow> string" where
  "trim s = rev (dropWhile is_space (rev (dropWhile is_space s)))"

text \<open>\<^verbatim>\<open>s.includes(pat)\<close>\<close>

fun str_includes :: "string \<Rightarrow> string \<Rightarrow> bool" where
  "str_includes [] pat = (pat = [])"
| "str_includes (c # cs) pat = (prefix pat (c # cs) \<or> str_includes cs pat)"

text \<open>\<^verbatim>\<open>s.split(sep)\<close> for a separator of one character: never an empty list.\<close>

fun split_on :: "char \<Rightarrow> string \<Rightarrow> string list" where
  "split_on sep [] = [[]]"
| "split_on sep (c # cs) =
     (if c = sep then [] # split_on sep cs
      else (case split_on sep cs of
              w # ws \<Rightarrow> (c # w) # ws
            | [] \<Rightarrow> [[c]]))"

text \<open>\<^verbatim>\<open>s.replace(/[^\w\s]/g, '')\<close>\<close>

definition strip_punctuation :: "string \<Rightarrow> string" where
  "strip_punctuation s = filter (\<lambda>c. is_word c \<or> is_space c) s"

text \<open>\<^verbatim>\<open>s.replace(/\s+/g, ' ')\<close>: every maximal run of white space becomes one blank.\<close>

function collapse_spaces :: "string \<Rightarrow> string" where
  "collapse_spaces [] = []"
| "collapse_spaces (c # cs) =
     (if is_space c then CHR '' '' # collapse_spaces (dropWhile is_space cs)
      else c # collapse_spaces cs)"
  by pat_completeness auto
termination
  by (relation "measure length") (auto simp: less_Suc_eq_le length_dropWhile_le)

text \<open>\<^verbatim>\<open>xs[i]\<close>: undefined (\<open>None\<close>) out of range.\<close>

definition item_at :: "'a list \<Rightarrow> nat \<Rightarrow> 'a option" where
  "item_at xs i = (if i < length xs then Some (xs ! i) else None)"

section \<open>Configuration\<close>

text \<open>The environment variables the program reads; \<open>None\<close> is an unset variable.\<close>

record config =
  GHL_PRIVATE_TOKEN :: "string option"
  GHL_LOCATION_ID :: "string option"
  GHL_API_VERSION :: "string option"
  GHL_CALENDAR_ID :: "string option"
  CALENDAR_MAPPING :: "string option"
  CUSTOM_FIELD_MAPPING :: "string option"

definition opt_str :: "string option \<Rightarrow> js" where
  "opt_str v = (case v of None \<Rightarrow> JUndefined | Some s \<Rightarrow> JStr s)"

record route =
  calId :: string
  userId :: "string option"

text \<open>One item \<^verbatim>\<open>email:calendarId:userId\<close> of \<^verbatim>\<open>CALENDAR_MAPPING\<close>.\<close>

definition add_route :: "(string \<rightharpoonup> route) \<Rightarrow> string \<Rightarrow> (string \<rightharpoonup> route)" where
  "add_route m item =
     (let parts = split_on CHR '':'' item;
          email = map_option (\<lambda>p. toLowerCase (trim p)) (item_at parts 0);
          cal = map_option trim (item_at parts 1);
          user = map_option trim (item_at parts 2)
      in (case (email, cal) of
            (Some e, Some c) \<Rightarrow>
              (if e \<noteq> [] \<and> c \<noteq> [] then m(e \<mapsto> \<lparr>calId = c, userId = user\<rparr>) else m)
          | _ \<Rightarrow> m))"

definition calendarMap :: "config \<Rightarrow> (string \<rightharpoonup> route)" where
  "calendarMap cfg =
     (case CALENDAR_MAPPING cfg of
        None \<Rightarrow> Map.empty
      | Some s \<Rightarrow> (if s = [] then Map.empty else foldl add_route Map.empty (split_on CHR '','' s)))"

text \<open>One item \<^verbatim>\<open>label:key\<close> of \<^verbatim>\<open>CUSTOM_FIELD_MAPPING\<close>. The \<^verbatim>\<open>Map\<close> is iterated
  later, so it is a list in insertion order; setting a key again keeps its place.\<close>

definition add_field :: "(string \<times> string) list \<Rightarrow> string \<Rightarrow> (string \<times> string) list" where
  "add_field fm item =
     (let parts = split_on CHR '':'' item
      in (case (item_at parts 0, item_at parts 1) of
            (Some label, Some key) \<Rightarrow>
              (if label \<noteq> [] \<and> key \<noteq> []
               then AList.update (toLowerCase (trim label)) (trim key) fm else fm)
          | _ \<Rightarrow> fm))"

definition fieldMap :: "config \<Rightarrow> (string \<times> string) list" where
  "fieldMap cfg =
     (case CUSTOM_FIELD_MAPPING cfg of
        None \<Rightarrow> []
      | Some s \<Rightarrow> (if s = [] then [] else foldl add_field [] (split_on CHR '','' s)))"

section \<open>Helpers\<close>

text \<open>The world outside the program: the CRM's answer to a request, \<^verbatim>\<open>JSON.parse\<close>
  (\<open>None\<close> when it throws) and \<^verbatim>\<open>new Date(v).toISOString()\<close> (\<open>None\<close> when the date is
  invalid or the conversion throws).\<close>

record request =
  url :: string
  http_method :: string
  headers :: "(string \<times> string) list"
  body :: "js option"

datatype fetch_result = Rejected string | Response nat string

record world =
  crm :: "request \<Rightarrow> fetch_result"
  JSON_parse :: "string \<Rightarrow> js option"
  date_iso :: "js \<Rightarrow> string option"

definition normalizeTime :: "world \<Rightarrow> js \<Rightarrow> js" where
  "normalizeTime w v =
     (if \<not> truthy v then JNull
      else (case date_iso w v of None \<Rightarrow> JNull | Some t \<Rightarrow> JStr t))"

record attendee =
  name :: js
  email :: js
  phone :: js

text \<open>No step of the body can throw on a value of \<^typ>\<open>js\<close> (every read of a possibly
  null value is a \<^verbatim>\<open>?.\<close>), so the \<^verbatim>\<open>catch\<close> branch has no input.\<close>

definition extractAttendee :: "js \<Rightarrow> attendee" where
  "extractAttendee payload =
     (let attendee =
            (case opt_get payload ''attendees'' of
               JArr xs \<Rightarrow> (case item_at xs 0 of Some x \<Rightarrow> x | None \<Rightarrow> JUndefined)
             | _ \<Rightarrow> JNull);
          chain = (\<lambda>field dflt.
            js_or (js_or (js_or (js_or
              (opt_get attendee field)
              (opt_get (opt_get (opt_get payload ''responses'') field) ''value''))
              (opt_get (opt_get payload ''invitee'') field))
              (opt_get payload field))
              dflt)
      in \<lparr>name = chain ''name'' (JStr ''Unknown''),
          email = chain ''email'' JNull,
          phone = chain ''phone'' JNull\<rparr>)"

definition roleOptions :: "(string \<times> string) list" where
  "roleOptions =
     [(''ceo / founder'', ''CEO / Founder''),
      (''ceo/founder'', ''CEO / Founder''),
      (''chief marketing officer'', ''Chief Marketing Officer''),
      (''seo director'', ''SEO Director''),
      (''seo manager'', ''SEO Manager''),
      (''marketing manager'', ''Marketing Manager''),
      (''other'', ''Other'')]"

definition budgetOptions :: "(string \<times> string) list" where
  "budgetOptions =
     [(''less than $5,000'', ''Less than $5,000''),
      (''less than $5000'', ''Less than $5,000''),
      (''between $5,000 - $10,000'', ''Between $5,000 - $10,000''),
      (''between $5000 - $10000'', ''Between $5,000 - $10,000''),
      (''more than $10,000'', ''More than $10,000''),
      (''more than $10000'', ''More than $10,000'')]"

text \<open>\<^verbatim>\<open>options[k]\<close> on an object literal of strings, for a lower-cased key: the own
  property, else what the literal inherits from \<^verbatim>\<open>Object.prototype\<close>. The inherited
  names without an upper-case letter are \<^verbatim>\<open>constructor\<close> and \<^verbatim>\<open>__proto__\<close>.\<close>

definition literal_get :: "(string \<times> string) list \<Rightarrow> string \<Rightarrow> js" where
  "literal_get options k =
     (case map_of options k of
        Some v \<Rightarrow> JStr v
      | None \<Rightarrow>
          (if k = ''constructor'' then JObjectCtor
           else if k = ''__proto__'' then JObjectProto
           else JUndefined))"

definition normalizeDropdownValue :: "js \<Rightarrow> error + js" where
  "normalizeDropdownValue v =
     (if \<not> truthy v then Inr v
      else (case to_String v of
              Inl e \<Rightarrow> Inl e
            | Inr s \<Rightarrow>
                (let val = trim s;
                     normalized = toLowerCase val
                 in if truthy (literal_get roleOptions normalized)
                    then Inr (literal_get roleOptions normalized)
                    else if truthy (literal_get budgetOptions normalized)
                    then Inr (literal_get budgetOptions normalized)
                    else Inr (JStr val))))"

text \<open>\<^verbatim>\<open>.trim().toLowerCase().replace(/[^\w\s]/g, '').replace(/\s+/g, ' ')\<close>\<close>

definition normalizeLabel :: "string \<Rightarrow> string" where
  "normalizeLabel s = collapse_spaces (strip_punctuation (toLowerCase (trim s)))"

text \<open>\<^verbatim>\<open>(responses[key]?.label || "")\<close> cleaned: a truthy label that is no string has no
  method \<^verbatim>\<open>trim\<close>.\<close>

definition actualLabel :: "js \<Rightarrow> error + string" where
  "actualLabel entry =
     (case js_or (opt_get entry ''label'') (JStr []) of
        JStr s \<Rightarrow> Inr (normalizeLabel s)
      | _ \<Rightarrow> Inl (TypeError ''trim is not a function''))"

text \<open>The inner loop for one configured label: the value to store, from the first
  entry whose cleaned label equals the cleaned target; \<open>None\<close> when no entry matches.
  \<^verbatim>\<open>responses[key].value\<close> throws on a null entry.\<close>

fun scan_responses :: "string \<Rightarrow> js list \<Rightarrow> error + js option" where
  "scan_responses targetLabel [] = Inr None"
| "scan_responses targetLabel (entry # rest) =
     (case actualLabel entry of
        Inl e \<Rightarrow> Inl e
      | Inr actual \<Rightarrow>
          (if actual = normalizeLabel targetLabel
           then (if nullish entry
                 then Inl (TypeError ''Cannot read properties of undefined (reading value)'')
                 else (case normalizeDropdownValue (get entry ''value'') of
                         Inl e \<Rightarrow> Inl e
                       | Inr finalValue \<Rightarrow> Inr (Some finalValue)))
           else scan_responses targetLabel rest))"

text \<open>The object \<^verbatim>\<open>fields\<close>: its prototype and its own properties in the order they
  were created. It starts as \<^verbatim>\<open>{}\<close>, with \<^verbatim>\<open>Object.prototype\<close>; an assignment to
  \<^verbatim>\<open>__proto__\<close> can make the prototype null or the function \<^verbatim>\<open>Object\<close>.\<close>

datatype prototype = ObjectPrototype | NullPrototype | ObjectFunction

datatype object = Object prototype "(string \<times> js) list"

fun own_properties :: "object \<Rightarrow> (string \<times> js) list" where
  "own_properties (Object pr kvs) = kvs"

text \<open>\<^verbatim>\<open>fields[ghlKey] = finalValue\<close>, in a module (strict mode).
  An own property is overwritten in place. Otherwise the prototype chain decides:
  \<^item> \<^verbatim>\<open>__proto__\<close> is an accessor of \<^verbatim>\<open>Object.prototype\<close>: while the object inherits it,
    the assignment sets the prototype when the value is null or an object and does
    nothing for any other value; it creates no own property. (The values the mapper
    stores are never arrays or parsed objects: \<^verbatim>\<open>normalizeDropdownValue\<close> returns a
    falsy value, a string or one of the two built-in objects.)
  \<^item> under the function \<^verbatim>\<open>Object\<close> the inherited \<^verbatim>\<open>length\<close>, \<^verbatim>\<open>name\<close> and
    \<^verbatim>\<open>prototype\<close> are read-only and \<^verbatim>\<open>caller\<close> and \<^verbatim>\<open>arguments\<close> are accessors that
    throw: TypeError;
  \<^item> in every other case, also for \<^verbatim>\<open>__proto__\<close> once the prototype is null, a new own
    property is created, last.\<close>

fun set_property :: "object \<Rightarrow> string \<Rightarrow> js \<Rightarrow> error + object" where
  "set_property (Object pr kvs) k v =
     (if map_of kvs k \<noteq> None then Inr (Object pr (AList.update k v kvs))
      else if k = ''__proto__'' \<and> pr \<noteq> NullPrototype
      then Inr (case v of
                  JNull \<Rightarrow> Object NullPrototype kvs
                | JObjectCtor \<Rightarrow> Object ObjectFunction kvs
                | JObjectProto \<Rightarrow> Object ObjectPrototype kvs
                | _ \<Rightarrow> Object pr kvs)
      else if pr = ObjectFunction
              \<and> k \<in> set [''length'', ''name'', ''prototype'', ''caller'', ''arguments'']
      then Inl (TypeError ''Cannot assign to read only property'')
      else Inr (Object pr (AList.update k v kvs)))"

fun map_labels ::
  "(string \<times> string) list \<Rightarrow> js list \<Rightarrow> object \<Rightarrow> error + object" where
  "map_labels [] entries flds = Inr flds"
| "map_labels ((targetLabel, ghlKey) # others) entries flds =
     (case scan_responses targetLabel entries of
        Inl e \<Rightarrow> Inl e
      | Inr None \<Rightarrow> map_labels others entries flds
      | Inr (Some finalValue) \<Rightarrow>
          (case set_property flds ghlKey finalValue of
             Inl e \<Rightarrow> Inl e
           | Inr flds' \<Rightarrow> map_labels others entries flds'))"

definition extractCustomFields :: "(string \<times> string) list \<Rightarrow> js \<Rightarrow> error + object" where
  "extractCustomFields fm payload =
     (let responses = js_or (opt_get payload ''responses'') (JObj [])
      in map_labels fm (for_in_values responses) (Object ObjectPrototype []))"

section \<open>The CRM gateway\<close>

definition digit_char :: "nat \<Rightarrow> char" where
  "digit_char d = ''0123456789'' ! d"

fun show_nat :: "nat \<Rightarrow> string" where
  "show_nat n = (if n < 10 then [digit_char n] else show_nat (n div 10) @ [digit_char (n mod 10)])"

declare show_nat.simps [simp del]

text \<open>\<^verbatim>\<open>err.message\<close>\<close>

fun message_of :: "error \<Rightarrow> string" where
  "message_of (TypeError m) = m"
| "message_of (GHLApiError st response) = ''GHL API error '' @ show_nat st"
| "message_of (FetchError m) = m"

text \<open>\<^verbatim>\<open>res.ok\<close>\<close>

definition ok_status :: "nat \<Rightarrow> bool" where
  "ok_status st = (200 \<le> st \<and> st \<le> 299)"

text \<open>The request \<^verbatim>\<open>ghlRequest\<close> hands to \<^verbatim>\<open>fetch\<close>; its body is the value given to
  \<^verbatim>\<open>JSON.stringify\<close>.\<close>

definition ghl_fetch_args :: "config \<Rightarrow> string \<Rightarrow> string \<Rightarrow> js \<Rightarrow> request" where
  "ghl_fetch_args cfg path method b =
     \<lparr>url = ''https://services.leadconnectorhq.com'' @ path,
      http_method = method,
      headers =
        [(''Content-Type'', ''application/json''),
         (''Accept'', ''application/json''),
         (''Authorization'',
            ''Bearer '' @ (case GHL_PRIVATE_TOKEN cfg of None \<Rightarrow> ''undefined'' | Some t \<Rightarrow> t)),
         (''Version'', (case GHL_API_VERSION cfg of None \<Rightarrow> ''2021-07-28'' | Some v \<Rightarrow> v))],
      body = (if truthy b then Some b else None)\<rparr>"

text \<open>What a fulfilled or rejected \<^verbatim>\<open>fetch\<close> becomes in \<^verbatim>\<open>ghlRequest\<close>.\<close>

definition ghl_result :: "world \<Rightarrow> fetch_result \<Rightarrow> error + js" where
  "ghl_result w res =
     (case res of
        Rejected m \<Rightarrow> Inl (FetchError m)
      | Response st text \<Rightarrow>
          (let data = (case JSON_parse w text of
                         Some d \<Rightarrow> d
                       | None \<Rightarrow> JObj [(''raw'', JStr text)])
           in if \<not> ok_status st then Inl (GHLApiError st data) else Inr data))"

text \<open>An operation of the gateway gives the requests it sent, in order, and its result
  or the error it threw.\<close>

type_synonym 'a effect = "request list \<times> (error + 'a)"

definition ghlRequest :: "config \<Rightarrow> world \<Rightarrow> string \<Rightarrow> string \<Rightarrow> js \<Rightarrow> js effect" where
  "ghlRequest cfg w path method b =
     (let req = ghl_fetch_args cfg path method b
      in ([req], ghl_result w (crm w req)))"

definition is_array_index :: "string \<Rightarrow> bool" where
  "is_array_index k =
     (k \<noteq> [] \<and> list_all is_digit k \<and> (k = ''0'' \<or> hd k \<noteq> CHR ''0'')
      \<and> foldl (\<lambda>a c. 10 * a + (of_char c - 48)) (0::int) k < 4294967295)"

text \<open>\<^verbatim>\<open>Object.entries(o)\<close>: the keys that are array indices first, ascending, then the
  others in the order they were created.\<close>

definition object_entries :: "object \<Rightarrow> (string \<times> js) list" where
  "object_entries obj =
     (let kvs = own_properties obj in
     sort_key (\<lambda>kv. foldl (\<lambda>a c. 10 * a + (of_char c - 48)) (0::int) (fst kv))
       (filter (\<lambda>kv. is_array_index (fst kv)) kvs)
     @ filter (\<lambda>kv. \<not> is_array_index (fst kv)) kvs)"

definition custom_field :: "string \<times> js \<Rightarrow> js" where
  "custom_field kv =
     (if prefix ''contact.'' (fst kv)
      then JObj [(''key'', JStr (fst kv)), (''value'', snd kv)]
      else JObj [(''id'', JStr (fst kv)), (''value'', snd kv)])"

definition upsertContact ::
  "config \<Rightarrow> world \<Rightarrow> js \<Rightarrow> js \<Rightarrow> js \<Rightarrow> object \<Rightarrow> js effect" where
  "upsertContact cfg w nm em ph customFields =
     (case to_String (js_or nm (JStr ''Unknown'')) of
        Inl e \<Rightarrow> ([], Inl e)
      | Inr n \<Rightarrow>
     (case to_String (js_or em (JStr [])) of
        Inl e \<Rightarrow> ([], Inl e)
      | Inr m \<Rightarrow>
     (case (if truthy ph then map_sum id (\<lambda>p. [(''phone'', JStr p)]) (to_String ph) else Inr []) of
        Inl e \<Rightarrow> ([], Inl e)
      | Inr phone_part \<Rightarrow>
     (let b = JObj ([(''locationId'', opt_str (GHL_LOCATION_ID cfg)),
                     (''name'', JStr n),
                     (''email'', JStr m)]
                    @ phone_part
                    @ [(''customFields'', JArr (map custom_field (object_entries customFields)))])
      in (case ghlRequest cfg w ''/contacts/upsert'' ''POST'' b of
            (calls, Inl e) \<Rightarrow> (calls, Inl e)
          | (calls, Inr resp) \<Rightarrow>
              (let contactId =
                     js_or (js_or (js_or (opt_get (opt_get resp ''contact'') ''id'')
                                         (opt_get resp ''contactId''))
                                  (opt_get resp ''id''))
                           JNull
               in (case to_String contactId of
                     Inl e \<Rightarrow> (calls, Inl e)
                   | Inr logged \<Rightarrow> (calls, Inr contactId))))))))"

definition createAppointment ::
  "config \<Rightarrow> world \<Rightarrow> js \<Rightarrow> js \<Rightarrow> js \<Rightarrow> js \<Rightarrow> js \<Rightarrow> js \<Rightarrow> js effect" where
  "createAppointment cfg w contactId startTime endTime title calendarId assignedUserId =
     (case to_String contactId of
        Inl e \<Rightarrow> ([], Inl e)
      | Inr c \<Rightarrow>
     (case to_String (js_or title (JStr ''LunaCal Booking'')) of
        Inl e \<Rightarrow> ([], Inl e)
      | Inr t \<Rightarrow>
     (case to_String startTime of
        Inl e \<Rightarrow> ([], Inl e)
      | Inr st \<Rightarrow>
     (case to_String endTime of
        Inl e \<Rightarrow> ([], Inl e)
      | Inr en \<Rightarrow>
          ghlRequest cfg w ''/calendars/events/appointments'' ''POST''
            (JObj ([(''locationId'', opt_str (GHL_LOCATION_ID cfg)),
                    (''calendarId'', calendarId),
                    (''contactId'', JStr c),
                    (''title'', JStr t),
                    (''startTime'', JStr st),
                    (''endTime'', JStr en),
                    (''ignoreFreeSlotValidation'', JBool True)]
                   @ (if truthy assignedUserId
                      then [(''assignedUserId'', assignedUserId)] else [])))))))"

section \<open>The webhook route\<close>

text \<open>\<^verbatim>\<open>payload?.organizer?.email?.toLowerCase() || ""\<close>: a value that is no string has no
  method \<^verbatim>\<open>toLowerCase\<close>.\<close>

definition organizerEmail_of :: "js \<Rightarrow> error + string" where
  "organizerEmail_of payload =
     (let e = opt_get (opt_get payload ''organizer'') ''email''
      in if nullish e then Inr []
         else (case e of
                 JStr s \<Rightarrow> Inr (toLowerCase s)
               | _ \<Rightarrow> Inl (TypeError ''toLowerCase is not a function'')))"

text \<open>The ``robust check for suraj.kumar domain''.\<close>

definition correct_organizer :: "string \<Rightarrow> string" where
  "correct_organizer organizerEmail =
     (if str_includes organizerEmail ''suraj.kumar@digitalwebsolutions''
      then ''suraj.kumar@digitalwebsolutions.in'' else organizerEmail)"

record target =
  targetCalendarId :: js
  targetUserId :: js

definition resolve_target :: "config \<Rightarrow> string \<Rightarrow> target" where
  "resolve_target cfg organizerEmail =
     (case (if organizerEmail \<noteq> [] then calendarMap cfg organizerEmail else None) of
        Some mapping \<Rightarrow>
          \<lparr>targetCalendarId = JStr (calId mapping), targetUserId = opt_str (userId mapping)\<rparr>
      | None \<Rightarrow>
          \<lparr>targetCalendarId = opt_str (GHL_CALENDAR_ID cfg), targetUserId = JNull\<rparr>)"

text \<open>Lines 239 to 257 of the route: organizer, correction, lookup.\<close>

definition routing :: "config \<Rightarrow> js \<Rightarrow> error + target" where
  "routing cfg payload =
     (case organizerEmail_of payload of
        Inl e \<Rightarrow> Inl e
      | Inr organizerEmail \<Rightarrow> Inr (resolve_target cfg (correct_organizer organizerEmail)))"

record reply =
  status :: nat
  json :: js

definition triggerEvent_of :: "js \<Rightarrow> error + string" where
  "triggerEvent_of reqbody =
     (let data = js_or reqbody (JObj [])
      in to_String (js_or (js_or (js_or (opt_get data ''triggerEvent'') (opt_get data ''event''))
                                 (opt_get data ''type''))
                          (JStr [])))"

definition payload_of :: "js \<Rightarrow> js" where
  "payload_of reqbody =
     (let data = js_or reqbody (JObj [])
      in js_or (opt_get data ''payload'') data)"

text \<open>The \<^verbatim>\<open>try\<close> block after the configuration check.\<close>

definition sync_booking :: "config \<Rightarrow> world \<Rightarrow> js \<Rightarrow> reply effect" where
  "sync_booking cfg w reqbody =
     (case triggerEvent_of reqbody of
        Inl e \<Rightarrow> ([], Inl e)
      | Inr triggerEvent \<Rightarrow>
     (let payload = payload_of reqbody
      in if str_includes (toUpperCase triggerEvent) ''PING''
         then ([], Inr \<lparr>status = 200,
                        json = JObj [(''ok'', JBool True), (''message'', JStr ''Received PING.'')]\<rparr>)
         else
     (let startTime = normalizeTime w (js_or (opt_get payload ''startTime'') (opt_get payload ''start''));
          endTime = normalizeTime w (js_or (opt_get payload ''endTime'') (opt_get payload ''end''))
      in (case to_String (js_or (js_or (opt_get payload ''eventTitle'') (opt_get payload ''title''))
                                (JStr ''LunaCal Booking'')) of
            Inl e \<Rightarrow> ([], Inl e)
          | Inr title \<Rightarrow>
     (let att = extractAttendee payload
      in (case extractCustomFields (fieldMap cfg) payload of
            Inl e \<Rightarrow> ([], Inl e)
          | Inr customFields \<Rightarrow>
     (case routing cfg payload of
        Inl e \<Rightarrow> ([], Inl e)
      | Inr tgt \<Rightarrow>
          (if \<not> truthy (email att) \<or> \<not> truthy startTime \<or> \<not> truthy endTime
              \<or> \<not> truthy (targetCalendarId tgt)
           then ([], Inr \<lparr>status = 400,
                          json = JObj [(''ok'', JBool False),
                                       (''message'', JStr ''Missing required fields'')]\<rparr>)
           else
     (case upsertContact cfg w (name att) (email att) (phone att) customFields of
        (calls, Inl e) \<Rightarrow> (calls, Inl e)
      | (calls, Inr contactId) \<Rightarrow>
     (case createAppointment cfg w contactId startTime endTime (JStr title)
             (targetCalendarId tgt) (targetUserId tgt) of
        (calls', Inl e) \<Rightarrow> (calls @ calls', Inl e)
      | (calls', Inr appointment) \<Rightarrow>
          (calls @ calls',
           Inr \<lparr>status = 200,
                json = JObj [(''ok'', JBool True),
                             (''message'', JStr ''Synced to GoHighLevel''),
                             (''contactId'', contactId),
                             (''appointmentId'', opt_get appointment ''id'')]\<rparr>)))))))))))"

text \<open>\<^verbatim>\<open>app.post("/webhooks/lunacal", ...)\<close>: the response sent and the requests made to
  the CRM.\<close>

definition webhooks_lunacal :: "config \<Rightarrow> world \<Rightarrow> js \<Rightarrow> reply \<times> request list" where
  "webhooks_lunacal cfg w reqbody =
     (if \<not> truthy (opt_str (GHL_PRIVATE_TOKEN cfg)) \<or> \<not> truthy (opt_str (GHL_LOCATION_ID cfg))
      then (\<lparr>status = 500,
             json = JObj [(''ok'', JBool False), (''message'', JStr ''Missing GHL configuration'')]\<rparr>,
            [])
      else (case sync_booking cfg w reqbody of
              (calls, Inl err) \<Rightarrow>
                (\<lparr>status = 500,
                  json = JObj [(''ok'', JBool False), (''message'', JStr (message_of err))]\<rparr>,
                 calls)
            | (calls, Inr r) \<Rightarrow> (r, calls)))"

section \<open>Notions of the specification\<close>

text \<open>The credentials the route checks first.\<close>

definition configured :: "config \<Rightarrow> bool" where
  "configured cfg =
     (truthy (opt_str (GHL_PRIVATE_TOKEN cfg)) \<and> truthy (opt_str (GHL_LOCATION_ID cfg)))"

text \<open>Lower-casing as the specification means it, said by sets of code units: a unit in
  U+0041..U+005A, U+00C0..U+00D6 or U+00D8..U+00DE goes up by 32, every other unit
  below 256 stays.\<close>

definition lower_case_unit :: "char \<Rightarrow> char" where
  "lower_case_unit c =
     (if (of_char c :: nat) \<in> {65..90} \<union> {192..214} \<union> {216..222}
      then char_of ((of_char c :: nat) + 32) else c)"

text \<open>The response entries of a payload, as the field mapper's loop visits them.\<close>

definition response_entries :: "js \<Rightarrow> js list" where
  "response_entries payload = for_in_values (js_or (opt_get payload ''responses'') (JObj []))"

text \<open>The four sources of an attendee field, in the order of the fallback chain.\<close>

definition attendee_sources :: "js \<Rightarrow> string \<Rightarrow> js list" where
  "attendee_sources payload field =
     [opt_get (case opt_get payload ''attendees'' of
                 JArr xs \<Rightarrow> (case item_at xs 0 of Some x \<Rightarrow> x | None \<Rightarrow> JUndefined)
               | _ \<Rightarrow> JNull) field,
      opt_get (opt_get (opt_get payload ''responses'') field) ''value'',
      opt_get (opt_get payload ''invitee'') field,
      opt_get payload field]"

text \<open>``The first defined value'' of a chain, as the specification words it: the first
  that is neither undefined nor null.\<close>

fun first_defined :: "js list \<Rightarrow> js \<Rightarrow> js" where
  "first_defined [] dflt = dflt"
| "first_defined (x # xs) dflt = (if nullish x then first_defined xs dflt else x)"

text \<open>The first truthy value of a chain: it also passes over \<^verbatim>\<open>""\<close>, \<^verbatim>\<open>0\<close> and
  \<^verbatim>\<open>false\<close>.\<close>

fun first_truthy :: "js list \<Rightarrow> js \<Rightarrow> js" where
  "first_truthy [] dflt = dflt"
| "first_truthy (x # xs) dflt = (if truthy x then x else first_truthy xs dflt)"

text \<open>The cleaning of a label as the specification words it: strip what is neither a
  word character nor white space, lower-case, collapse white space. The program trims
  first (\<^const>\<open>normalizeLabel\<close>).\<close>

definition spec_clean_label :: "string \<Rightarrow> string" where
  "spec_clean_label s = collapse_spaces (toLowerCase (strip_punctuation s))"

text \<open>Two response entries that are the same, or are objects with the same value
  whose labels are strings that agree after the program's cleaning.\<close>

definition relabelled :: "js \<Rightarrow> js \<Rightarrow> bool" where
  "relabelled e1 e2 =
     (e1 = e2 \<or>
      (case (e1, e2) of
         (JObj kvs1, JObj kvs2) \<Rightarrow>
           get e1 ''value'' = get e2 ''value'' \<and>
           (case (get e1 ''label'', get e2 ''label'') of
              (JStr l1, JStr l2) \<Rightarrow> normalizeLabel l1 = normalizeLabel l2
            | _ \<Rightarrow> False)
       | _ \<Rightarrow> False))"

text \<open>An entry the loop can read: not null, its label a string or falsy.\<close>

definition readable_entry :: "js \<Rightarrow> bool" where
  "readable_entry entry =
     (\<not> nullish entry \<and>
      (case js_or (opt_get entry ''label'') (JStr []) of JStr s \<Rightarrow> True | _ \<Rightarrow> False))"

text \<open>An entry matches a configured label when their cleaned labels are equal.\<close>

definition label_matches :: "string \<Rightarrow> js \<Rightarrow> bool" where
  "label_matches targetLabel entry = (actualLabel entry = Inr (normalizeLabel targetLabel))"

text \<open>The field mapper as the specification words it: for every configured label, the
  first matching entry's value goes through the value normalizer and is stored under
  the outbound key; a label with no matching entry stores nothing.\<close>

fun first_match_fields ::
  "(string \<times> string) list \<Rightarrow> js list \<Rightarrow> object \<Rightarrow> error + object" where
  "first_match_fields [] entries flds = Inr flds"
| "first_match_fields ((targetLabel, ghlKey) # others) entries flds =
     (case find (label_matches targetLabel) entries of
        None \<Rightarrow> first_match_fields others entries flds
      | Some entry \<Rightarrow>
          (case normalizeDropdownValue (get entry ''value'') of
             Inl e \<Rightarrow> Inl e
           | Inr finalValue \<Rightarrow>
               (case set_property flds ghlKey finalValue of
                  Inl e \<Rightarrow> Inl e
                | Inr flds' \<Rightarrow> first_match_fields others entries flds')))"

text \<open>A required field is missing: the extracted email, a normalized time or the
  resolved calendar id is falsy (null, undefined or the empty text).\<close>

definition missing_required :: "config \<Rightarrow> world \<Rightarrow> js \<Rightarrow> bool" where
  "missing_required cfg w reqbody =
     (let payload = payload_of reqbody
      in \<not> truthy (email (extractAttendee payload))
         \<or> \<not> truthy (normalizeTime w
                         (js_or (opt_get payload ''startTime'') (opt_get payload ''start'')))
         \<or> \<not> truthy (normalizeTime w
                         (js_or (opt_get payload ''endTime'') (opt_get payload ''end'')))
         \<or> (case routing cfg payload of
               Inr tgt \<Rightarrow> \<not> truthy (targetCalendarId tgt)
             | Inl e \<Rightarrow> False))"

text \<open>The request gets as far as the validation: the credentials are set, the event is
  derived and is no PING, and neither the title, the field mapper nor the routing
  throws.\<close>

definition reaches_validation :: "config \<Rightarrow> js \<Rightarrow> bool" where
  "reaches_validation cfg reqbody =
     (let payload = payload_of reqbody
      in configured cfg
         \<and> (case triggerEvent_of reqbody of
               Inr t \<Rightarrow> \<not> sublist ''PING'' (toUpperCase t)
             | Inl e \<Rightarrow> False)
         \<and> \<not> isl (to_String (js_or (js_or (opt_get payload ''eventTitle'')
                                            (opt_get payload ''title''))
                                     (JStr ''LunaCal Booking'')))
         \<and> \<not> isl (extractCustomFields (fieldMap cfg) payload)
         \<and> \<not> isl (routing cfg payload))"

section \<open>Example inputs\<close>

definition example_config :: config where
  "example_config =
     \<lparr>GHL_PRIVATE_TOKEN = Some ''token'', GHL_LOCATION_ID = Some ''loc_1'',
      GHL_API_VERSION = None, GHL_CALENDAR_ID = Some ''cal_default'',
      CALENDAR_MAPPING = Some ''jane@acme.com:cal_1:user_7'',
      CUSTOM_FIELD_MAPPING = Some ''What's your role?:contact.role''\<rparr>"

definition no_token_config :: config where
  "no_token_config = example_config\<lparr>GHL_PRIVATE_TOKEN := None\<rparr>"

text \<open>A CRM that answers every request \<^verbatim>\<open>200 {}\<close>: an upsert response with none of the
  three id keys.\<close>

definition example_world :: world where
  "example_world =
     \<lparr>crm = (\<lambda>r. Response 200 ''{}''),
      JSON_parse = (\<lambda>t. if t = ''{}'' then Some (JObj []) else None),
      date_iso =
        (\<lambda>v. if v = JStr ''2024-01-01T10:00:00Z'' then Some ''2024-01-01T10:00:00.000Z''
              else if v = JStr ''2024-01-01T10:30:00Z'' then Some ''2024-01-01T10:30:00.000Z''
              else None)\<rparr>"

text \<open>A CRM that answers \<^verbatim>\<open>404 Not Found\<close>, a body that is no JSON.\<close>

definition not_found_world :: world where
  "not_found_world =
     example_world\<lparr>crm := (\<lambda>r. Response 404 ''Not Found''), JSON_parse := (\<lambda>t. None)\<rparr>"

definition booking_body :: js where
  "booking_body =
     JObj [(''triggerEvent'', JStr ''BOOKING.CREATED''),
           (''payload'',
            JObj [(''startTime'', JStr ''2024-01-01T10:00:00Z''),
                  (''endTime'', JStr ''2024-01-01T10:30:00Z''),
                  (''attendees'',
                   JArr [JObj [(''name'', JStr ''Jo''), (''email'', JStr ''jo@x.com'')]]),
                  (''organizer'', JObj [(''email'', JStr ''jane@acme.com'')])])]"

definition ping_body :: js where
  "ping_body = JObj [(''triggerEvent'', JStr ''PING'')]"

definition no_email_body :: js where
  "no_email_body =
     JObj [(''triggerEvent'', JStr ''BOOKING.CREATED''),
           (''payload'',
            JObj [(''startTime'', JStr ''2024-01-01T10:00:00Z''),
                  (''endTime'', JStr ''2024-01-01T10:30:00Z''),
                  (''organizer'', JObj [(''email'', JStr ''jane@acme.com'')])])]"

definition suraj_payload :: js where
  "suraj_payload =
     JObj [(''organizer'', JObj [(''email'', JStr ''Suraj.Kumar@DigitalWebSolutions.com'')])]"

definition jane_payload :: js where
  "jane_payload = JObj [(''organizer'', JObj [(''email'', JStr ''Jane@ACME.com'')])]"

definition bob_payload :: js where
  "bob_payload = JObj [(''organizer'', JObj [(''email'', JStr ''bob@x.com'')])]"

definition empty_first_source_payload :: js where
  "empty_first_source_payload =
     JObj [(''attendees'', JArr [JObj [(''email'', JStr [])]]), (''email'', JStr ''jo@x.com'')]"

definition labelled_payload :: "js \<Rightarrow> js \<Rightarrow> js" where
  "labelled_payload label v =
     JObj [(''responses'', JObj [(''q1'', JObj [(''label'', label), (''value'', v)])])]"

definition two_matches_payload :: js where
  "two_matches_payload =
     JObj [(''responses'',
            JObj [(''q1'', JObj [(''label'', JStr ''Your email''), (''value'', JStr ''jo@x.com'')]),
                  (''q2'', JObj [(''label'', JStr ''What's Your Role?''),
                                 (''value'', JStr ''ceo/founder'')]),
                  (''q3'', JObj [(''label'', JStr ''whats your role''),
                                 (''value'', JStr ''Other'')])])]"

section \<open>Strings and the routing table\<close>

lemma str_includes_sublist: "str_includes s pat \<longleftrightarrow> sublist pat s"
  by (induction s) (auto simp: sublist_Cons_right)

lemma add_route_empty_key: "m [] = None \<Longrightarrow> add_route m item [] = None"
  by (auto simp: add_route_def Let_def split: option.splits)

lemma foldl_add_route_empty_key: "m [] = None \<Longrightarrow> foldl add_route m items [] = None"
  by (induction items arbitrary: m) (simp_all add: add_route_empty_key)

lemma calendarMap_empty_key: "calendarMap cfg [] = None"
  by (simp add: calendarMap_def foldl_add_route_empty_key split: option.splits)

section \<open>The CRM gateway\<close>

text \<open>
  C9. For every request of the gateway that the CRM answers: the body is parsed as JSON,
  and a body that does not parse is wrapped as \<^verbatim>\<open>{ raw: text }\<close>; a status outside 200..299
  is thrown as an error carrying the status and that body, a status within is returned
  as that body. Exactly one request is sent.
\<close>

theorem ghlRequest_status_and_body:
  assumes "crm w (ghl_fetch_args cfg path method b) = Response st text"
  shows "ghlRequest cfg w path method b =
           ([ghl_fetch_args cfg path method b],
            (let data = (case JSON_parse w text of
                           Some d \<Rightarrow> d
                         | None \<Rightarrow> JObj [(''raw'', JStr text)])
             in if 200 \<le> st \<and> st \<le> 299 then Inr data else Inl (GHLApiError st data)))"
  using assms by (simp add: ghlRequest_def ghl_result_def ok_status_def Let_def)

theorem ghlRequest_status_and_body_witness:
  "ghlRequest example_config not_found_world ''/contacts/upsert'' ''POST'' JNull =
     ([ghl_fetch_args example_config ''/contacts/upsert'' ''POST'' JNull],
      Inl (GHLApiError 404 (JObj [(''raw'', JStr ''Not Found'')])))"
  using ghlRequest_status_and_body
    [of not_found_world example_config "''/contacts/upsert''" "''POST''" JNull 404 "''Not Found''"]
  by (simp add: not_found_world_def)

section \<open>Routing\<close>

text \<open>
  C10. The correction of the organizer is by containment: for every organizer email that
  is a string, if its lower-cased form contains \<^verbatim>\<open>suraj.kumar@digitalwebsolutions\<close>
  anywhere, the lookup is made with \<^verbatim>\<open>suraj.kumar@digitalwebsolutions.in\<close>, and
  otherwise with the lower-cased email unchanged.
\<close>

theorem routing_domain_correction:
  assumes "opt_get (opt_get payload ''organizer'') ''email'' = JStr s"
  shows "routing cfg payload =
           Inr (resolve_target cfg
                  (if sublist ''suraj.kumar@digitalwebsolutions'' (toLowerCase s)
                   then ''suraj.kumar@digitalwebsolutions.in'' else toLowerCase s))"
  using assms
  by (simp add: routing_def organizerEmail_of_def correct_organizer_def nullish_def
      str_includes_sublist Let_def)

theorem routing_domain_correction_witness:
  "routing example_config suraj_payload =
     Inr (resolve_target example_config ''suraj.kumar@digitalwebsolutions.in'')"
proof -
  have organizer: "opt_get (opt_get suraj_payload ''organizer'') ''email''
      = JStr ''Suraj.Kumar@DigitalWebSolutions.com''"
    by code_simp
  have contained: "sublist ''suraj.kumar@digitalwebsolutions''
      (toLowerCase ''Suraj.Kumar@DigitalWebSolutions.com'')"
    by code_simp
  show ?thesis
    using routing_domain_correction [OF organizer, of example_config] contained by simp
qed

lemma lower_char_unit: "lower_char c = lower_case_unit c"
  by (simp add: lower_char_def lower_case_unit_def Let_def)

lemma toLowerCase_units: "toLowerCase s = map lower_case_unit s"
  by (simp add: toLowerCase_def lower_char_unit)

text \<open>
  C7. For every organizer email that is a string, the resolver lower-cases it (the
  letters A to Z, U+00C0 to U+00D6 and U+00D8 to U+00DE go to their lower-case forms),
  replaces it by \<^verbatim>\<open>suraj.kumar@digitalwebsolutions.in\<close> when it contains
  \<^verbatim>\<open>suraj.kumar@digitalwebsolutions\<close>, and looks the result up in the calendar-route map:
  on a hit it gives exactly the mapped calendar id and user id, on a miss the configured
  default calendar id and the user id null. An absent or null organizer email is a miss.
\<close>

theorem routing_resolver:
  "(opt_get (opt_get payload ''organizer'') ''email'' = JStr s \<longrightarrow>
      routing cfg payload =
        Inr (let lowered = map lower_case_unit s;
                 corrected =
                   (if sublist ''suraj.kumar@digitalwebsolutions'' lowered
                    then ''suraj.kumar@digitalwebsolutions.in'' else lowered)
             in case calendarMap cfg corrected of
                  Some mapping \<Rightarrow>
                    \<lparr>targetCalendarId = JStr (calId mapping),
                     targetUserId =
                       (case userId mapping of None \<Rightarrow> JUndefined | Some u \<Rightarrow> JStr u)\<rparr>
                | None \<Rightarrow>
                    \<lparr>targetCalendarId =
                       (case GHL_CALENDAR_ID cfg of None \<Rightarrow> JUndefined | Some c \<Rightarrow> JStr c),
                     targetUserId = JNull\<rparr>))
   \<and> (nullish (opt_get (opt_get payload ''organizer'') ''email'') \<longrightarrow>
      routing cfg payload =
        Inr \<lparr>targetCalendarId =
               (case GHL_CALENDAR_ID cfg of None \<Rightarrow> JUndefined | Some c \<Rightarrow> JStr c),
             targetUserId = JNull\<rparr>)"
proof (intro conjI impI)
  assume organizer: "opt_get (opt_get payload ''organizer'') ''email'' = JStr s"
  have key: "correct_organizer (toLowerCase s) =
      (if sublist ''suraj.kumar@digitalwebsolutions'' (map lower_case_unit s)
       then ''suraj.kumar@digitalwebsolutions.in'' else map lower_case_unit s)"
    by (simp add: correct_organizer_def str_includes_sublist toLowerCase_units)
  have "routing cfg payload = Inr (resolve_target cfg (correct_organizer (toLowerCase s)))"
    using organizer by (simp add: routing_def organizerEmail_of_def nullish_def)
  then show "routing cfg payload =
        Inr (let lowered = map lower_case_unit s;
                 corrected =
                   (if sublist ''suraj.kumar@digitalwebsolutions'' lowered
                    then ''suraj.kumar@digitalwebsolutions.in'' else lowered)
             in case calendarMap cfg corrected of
                  Some mapping \<Rightarrow>
                    \<lparr>targetCalendarId = JStr (calId mapping),
                     targetUserId =
                       (case userId mapping of None \<Rightarrow> JUndefined | Some u \<Rightarrow> JStr u)\<rparr>
                | None \<Rightarrow>
                    \<lparr>targetCalendarId =
                       (case GHL_CALENDAR_ID cfg of None \<Rightarrow> JUndefined | Some c \<Rightarrow> JStr c),
                     targetUserId = JNull\<rparr>)"
    unfolding key
    by (simp add: resolve_target_def opt_str_def calendarMap_empty_key Let_def
        split: option.splits)
next
  assume "nullish (opt_get (opt_get payload ''organizer'') ''email'')"
  then show "routing cfg payload =
        Inr \<lparr>targetCalendarId =
               (case GHL_CALENDAR_ID cfg of None \<Rightarrow> JUndefined | Some c \<Rightarrow> JStr c),
             targetUserId = JNull\<rparr>"
    by (simp add: routing_def organizerEmail_of_def resolve_target_def correct_organizer_def
        opt_str_def)
qed

theorem routing_resolver_witness:
  "routing example_config jane_payload =
     Inr \<lparr>targetCalendarId = JStr ''cal_1'', targetUserId = JStr ''user_7''\<rparr>
   \<and> routing example_config bob_payload =
     Inr \<lparr>targetCalendarId = JStr ''cal_default'', targetUserId = JNull\<rparr>
   \<and> routing example_config (JObj []) =
     Inr \<lparr>targetCalendarId = JStr ''cal_default'', targetUserId = JNull\<rparr>"
proof -
  have jane: "opt_get (opt_get jane_payload ''organizer'') ''email'' = JStr ''Jane@ACME.com''"
    by code_simp
  have "toLowerCase ''Jane@ACME.com'' = ''jane@acme.com''"
    by code_simp
  then have jane_lowered: "map lower_case_unit ''Jane@ACME.com'' = ''jane@acme.com''"
    by (simp only: toLowerCase_units)
  have jane_kept: "sublist ''suraj.kumar@digitalwebsolutions'' ''jane@acme.com'' = False"
    by code_simp
  have hit: "calendarMap example_config ''jane@acme.com''
      = Some \<lparr>calId = ''cal_1'', userId = Some ''user_7''\<rparr>"
    by code_simp
  have bob: "opt_get (opt_get bob_payload ''organizer'') ''email'' = JStr ''bob@x.com''"
    by code_simp
  have "toLowerCase ''bob@x.com'' = ''bob@x.com''"
    by code_simp
  then have bob_lowered: "map lower_case_unit ''bob@x.com'' = ''bob@x.com''"
    by (simp only: toLowerCase_units)
  have bob_kept: "sublist ''suraj.kumar@digitalwebsolutions'' ''bob@x.com'' = False"
    by code_simp
  have miss: "calendarMap example_config ''bob@x.com'' = None"
    by code_simp
  have absent: "nullish (opt_get (opt_get (JObj []) ''organizer'') ''email'')"
    by code_simp
  have default: "GHL_CALENDAR_ID example_config = Some ''cal_default''"
    by code_simp
  have first: "routing example_config jane_payload =
      Inr \<lparr>targetCalendarId = JStr ''cal_1'', targetUserId = JStr ''user_7''\<rparr>"
    using routing_resolver [of jane_payload "''Jane@ACME.com''" example_config,
        unfolded Let_def jane_lowered] jane
    by (simp add: jane_kept hit)
  have second: "routing example_config bob_payload =
      Inr \<lparr>targetCalendarId = JStr ''cal_default'', targetUserId = JNull\<rparr>"
    using routing_resolver [of bob_payload "''bob@x.com''" example_config,
        unfolded Let_def bob_lowered] bob
    by (simp add: bob_kept miss default)
  have third: "routing example_config (JObj []) =
      Inr \<lparr>targetCalendarId = JStr ''cal_default'', targetUserId = JNull\<rparr>"
    using routing_resolver [of "JObj []" "[]" example_config] absent
    by (simp add: default)
  from first second third show ?thesis by simp
qed

section \<open>The webhook route\<close>

text \<open>
  C8 (as amended). For every request whose derived triggerEvent contains \<^verbatim>\<open>PING\<close> after
  upper-casing, the route sends nothing to the CRM; and when the token and the location
  id are configured, it answers 200 \<^verbatim>\<open>Received PING.\<close> (The configuration check comes
  first and answers 500 without them.)
\<close>

theorem ping_no_side_effects:
  assumes "triggerEvent_of reqbody = Inr t" and "sublist ''PING'' (toUpperCase t)"
  shows "snd (webhooks_lunacal cfg w reqbody) = []
         \<and> (configured cfg \<longrightarrow>
              fst (webhooks_lunacal cfg w reqbody) =
                \<lparr>status = 200,
                 json = JObj [(''ok'', JBool True), (''message'', JStr ''Received PING.'')]\<rparr>)"
  using assms
  by (simp add: webhooks_lunacal_def sync_booking_def configured_def str_includes_sublist Let_def)

theorem ping_no_side_effects_witness:
  "webhooks_lunacal example_config example_world ping_body =
     (\<lparr>status = 200,
       json = JObj [(''ok'', JBool True), (''message'', JStr ''Received PING.'')]\<rparr>,
      [])"
proof -
  have event: "triggerEvent_of ping_body = Inr ''PING''"
    by code_simp
  have contained: "sublist ''PING'' (toUpperCase ''PING'')"
    by code_simp
  have credentials: "configured example_config"
    by code_simp
  show ?thesis
    using ping_no_side_effects [OF event contained, of example_config example_world] credentials
    by (simp add: prod_eq_iff)
qed

text \<open>A PING to a server without its token: the answer is 500, not 200.\<close>

theorem ping_always_200_counterexample:
  "triggerEvent_of ping_body = Inr ''PING''
   \<and> sublist ''PING'' (toUpperCase ''PING'')
   \<and> webhooks_lunacal no_token_config example_world ping_body =
       (\<lparr>status = 500,
         json = JObj [(''ok'', JBool False), (''message'', JStr ''Missing GHL configuration'')]\<rparr>,
        [])"
  by code_simp

text \<open>On every request that gets as far as the validation with a required field missing,
  the route sends nothing to the CRM and answers 400 with the message alone.\<close>

lemma missing_fields_bare_400:
  assumes "missing_required cfg w reqbody"
  shows "snd (webhooks_lunacal cfg w reqbody) = []
         \<and> (reaches_validation cfg reqbody \<longrightarrow>
              fst (webhooks_lunacal cfg w reqbody) =
                \<lparr>status = 400,
                 json = JObj [(''ok'', JBool False),
                              (''message'', JStr ''Missing required fields'')]\<rparr>)"
  using assms
  by (auto simp: webhooks_lunacal_def sync_booking_def configured_def str_includes_sublist Let_def
      missing_required_def reaches_validation_def split: sum.splits)

text \<open>
  C2 (the code at the failing input). A booking without an attendee email, on a
  configured server: the route answers 400 and sends nothing to the CRM, but the body of
  the answer is \<^verbatim>\<open>{ok: false, message: "Missing required fields"}\<close>; it has no \<^verbatim>\<open>debug\<close>
  property and none of the values of email, startTime, endTime or calendar id.
\<close>

theorem missing_fields_400_without_values:
  "email (extractAttendee (payload_of no_email_body)) = JNull
   \<and> webhooks_lunacal example_config example_world no_email_body =
       (\<lparr>status = 400,
         json = JObj [(''ok'', JBool False), (''message'', JStr ''Missing required fields'')]\<rparr>,
        [])
   \<and> opt_get (json (fst (webhooks_lunacal example_config example_world no_email_body))) ''debug''
       = JUndefined"
  by code_simp

theorem missing_fields_400_without_values_witness:
  "status (fst (webhooks_lunacal example_config example_world no_email_body)) = 400"
  using missing_fields_400_without_values by simp

text \<open>
  C1 (the code at the failing input). The CRM answers the upsert \<^verbatim>\<open>200 {}\<close>, a body with
  none of \<^verbatim>\<open>contact.id\<close>, \<^verbatim>\<open>contactId\<close>, \<^verbatim>\<open>id\<close>: \<^verbatim>\<open>upsertContact\<close> returns null without
  an error, and the route goes on to create the appointment, with the contact id
  \<^verbatim>\<open>"null"\<close>, and answers 200.
\<close>

theorem appointment_created_without_contact_id:
  "snd (upsertContact example_config example_world (JStr ''Jo'') (JStr ''jo@x.com'') JNull
         (Object ObjectPrototype []))
     = Inr JNull
   \<and> map url (snd (webhooks_lunacal example_config example_world booking_body)) =
       [''https://services.leadconnectorhq.com/contacts/upsert'',
        ''https://services.leadconnectorhq.com/calendars/events/appointments'']
   \<and> map (\<lambda>r. opt_get (case body r of Some b \<Rightarrow> b | None \<Rightarrow> JUndefined) ''contactId'')
         (snd (webhooks_lunacal example_config example_world booking_body)) =
       [JUndefined, JStr ''null'']
   \<and> fst (webhooks_lunacal example_config example_world booking_body) =
       \<lparr>status = 200,
        json = JObj [(''ok'', JBool True), (''message'', JStr ''Synced to GoHighLevel''),
                     (''contactId'', JNull), (''appointmentId'', JUndefined)]\<rparr>"
  by code_simp

text \<open>So two requests reach the CRM for that booking.\<close>

theorem appointment_created_without_contact_id_witness:
  "length (snd (webhooks_lunacal example_config example_world booking_body)) = 2"
proof -
  have "length (map url (snd (webhooks_lunacal example_config example_world booking_body))) = 2"
    using appointment_created_without_contact_id by simp
  then show ?thesis by simp
qed

section \<open>The value normalizer\<close>

text \<open>On every string whose trimmed, lower-cased form is neither \<^verbatim>\<open>constructor\<close> nor
  \<^verbatim>\<open>__proto__\<close>: the canonical spelling of a known synonym, else the trimmed input.\<close>

lemma normalizeDropdownValue_string:
  assumes "toLowerCase (trim s) \<noteq> ''constructor''" and "toLowerCase (trim s) \<noteq> ''__proto__''"
  shows "normalizeDropdownValue (JStr s) =
           Inr (JStr (case map_of (roleOptions @ budgetOptions) (toLowerCase (trim s)) of
                        Some canonical \<Rightarrow> canonical
                      | None \<Rightarrow> trim s))"
proof (cases "s = []")
  case True
  then show ?thesis
    by (simp add: normalizeDropdownValue_def trim_def toLowerCase_def roleOptions_def
        budgetOptions_def)
next
  case False
  with assms show ?thesis
    by (simp add: normalizeDropdownValue_def literal_get_def Let_def roleOptions_def
        budgetOptions_def)
qed

lemma normalizeDropdownValue_falsy: "\<not> truthy v \<Longrightarrow> normalizeDropdownValue v = Inr v"
  by (simp add: normalizeDropdownValue_def)

text \<open>
  C3 (the code at the failing input). \<^verbatim>\<open>constructor\<close> is in neither table, yet the
  normalizer does not return it: the table read finds the inherited property and the
  result is the built-in function \<^verbatim>\<open>Object\<close>; likewise \<^verbatim>\<open>Object.prototype\<close> for
  \<^verbatim>\<open>__proto__\<close>.
\<close>

theorem normalizeDropdownValue_constructor:
  "map_of roleOptions ''constructor'' = None
   \<and> map_of budgetOptions ''constructor'' = None
   \<and> normalizeDropdownValue (JStr ''constructor'') = Inr JObjectCtor
   \<and> normalizeDropdownValue (JStr '' Constructor '') = Inr JObjectCtor
   \<and> normalizeDropdownValue (JStr ''__proto__'') = Inr JObjectProto"
  by code_simp

section \<open>The attendee extractor\<close>

text \<open>
  C4 (as amended). For every payload and each of name, email and phone, the extractor
  takes the first truthy value of the chain: first element of the attendees list,
  \<^verbatim>\<open>responses.<field>.value\<close>, \<^verbatim>\<open>invitee.<field>\<close>, top-level \<^verbatim>\<open><field>\<close>; when none is
  truthy the name is \<^verbatim>\<open>Unknown\<close> and the email and phone are null. It is total: no
  payload makes it throw.
\<close>

theorem extractAttendee_first_truthy:
  "extractAttendee payload =
     \<lparr>name = first_truthy (attendee_sources payload ''name'') (JStr ''Unknown''),
      email = first_truthy (attendee_sources payload ''email'') JNull,
      phone = first_truthy (attendee_sources payload ''phone'') JNull\<rparr>"
  by (simp add: extractAttendee_def attendee_sources_def js_or_def Let_def)

text \<open>The first source is defined, the empty text, and is passed over.\<close>

theorem extractAttendee_first_defined_counterexample:
  "attendee_sources empty_first_source_payload ''email'' =
     [JStr [], JUndefined, JUndefined, JStr ''jo@x.com'']
   \<and> first_defined (attendee_sources empty_first_source_payload ''email'') JNull = JStr []
   \<and> email (extractAttendee empty_first_source_payload) = JStr ''jo@x.com''"
  by code_simp

section \<open>The field mapper\<close>

lemma extractCustomFields_entries:
  "extractCustomFields fm payload =
     map_labels fm (response_entries payload) (Object ObjectPrototype [])"
  by (simp add: extractCustomFields_def response_entries_def)

text \<open>The value normalizer never returns an array or a parsed object, so the mapper never
  stores one.\<close>

lemma literal_get_no_object:
  "literal_get options k \<noteq> JObj kvs" "literal_get options k \<noteq> JArr xs"
  by (simp_all add: literal_get_def split: option.splits)

lemma normalizeDropdownValue_no_object:
  "normalizeDropdownValue v \<noteq> Inr (JObj kvs)" "normalizeDropdownValue v \<noteq> Inr (JArr xs)"
proof -
  show "normalizeDropdownValue v \<noteq> Inr (JObj kvs)"
  proof (cases "truthy v")
    case False
    then show ?thesis by (auto simp: normalizeDropdownValue_def)
  next
    case True
    then show ?thesis
      by (simp add: normalizeDropdownValue_def Let_def literal_get_no_object split: sum.splits)
  qed
  show "normalizeDropdownValue v \<noteq> Inr (JArr xs)"
  proof (cases "truthy v")
    case False
    then show ?thesis by (auto simp: normalizeDropdownValue_def)
  next
    case True
    then show ?thesis
      by (simp add: normalizeDropdownValue_def Let_def literal_get_no_object split: sum.splits)
  qed
qed

text \<open>Two configured labels with the outbound key \<^verbatim>\<open>__proto__\<close>: the null value of
  the first makes the prototype null and creates no property, after which the value of
  the second becomes an own property.\<close>

lemma assignment_to_proto:
  "set_property (Object ObjectPrototype []) ''__proto__'' (JStr ''x'')
     = Inr (Object ObjectPrototype [])
   \<and> set_property (Object ObjectPrototype []) ''__proto__'' JNull = Inr (Object NullPrototype [])
   \<and> set_property (Object NullPrototype []) ''__proto__'' (JStr ''x'')
     = Inr (Object NullPrototype [(''__proto__'', JStr ''x'')])
   \<and> extractCustomFields [(''a'', ''__proto__''), (''b'', ''__proto__'')]
       (JObj [(''responses'',
               JObj [(''q1'', JObj [(''label'', JStr ''A''), (''value'', JNull)]),
                     (''q2'', JObj [(''label'', JStr ''B''), (''value'', JStr ''x'')])])])
     = Inr (Object NullPrototype [(''__proto__'', JStr ''x'')])"
  by code_simp

lemma actualLabel_relabelled: "relabelled e1 e2 \<Longrightarrow> actualLabel e1 = actualLabel e2"
  by (auto simp: relabelled_def actualLabel_def js_or_def opt_get_def nullish_def
      split: js.splits option.splits)

lemma scan_responses_relabelled:
  "list_all2 relabelled es1 es2 \<Longrightarrow> scan_responses t es1 = scan_responses t es2"
proof (induction rule: list_all2_induct)
  case Nil
  show ?case by simp
next
  case (Cons e1 es1 e2 es2)
  have labels: "actualLabel e1 = actualLabel e2"
    using Cons.hyps(1) by (rule actualLabel_relabelled)
  have same: "get e1 ''value'' = get e2 ''value''" "nullish e1 = nullish e2"
    using Cons.hyps(1) by (auto simp: relabelled_def nullish_def split: js.splits)
  show ?case
    by (simp add: labels same Cons.IH split: sum.splits)
qed

lemma map_labels_relabelled:
  "list_all2 relabelled es1 es2 \<Longrightarrow> map_labels fm es1 flds = map_labels fm es2 flds"
  by (induction fm es1 flds rule: map_labels.induct)
     (simp_all add: scan_responses_relabelled split: sum.splits option.splits)

text \<open>What the code does keep: two payloads whose response entries differ only in their
  labels, corresponding labels agreeing after the program's cleaning (trim, lower-case,
  strip, collapse, in that order), are mapped to the same fields.\<close>

lemma relabelling_keeps_fields:
  assumes "list_all2 relabelled (response_entries payload1) (response_entries payload2)"
  shows "extractCustomFields fm payload1 = extractCustomFields fm payload2"
  using assms by (simp add: extractCustomFields_entries map_labels_relabelled)

text \<open>The three labels of the specification's example map to the same key.\<close>

lemma example_labels_same_key:
  "extractCustomFields (fieldMap example_config)
     (labelled_payload (JStr ''What's Your Role?'') (JStr ''ceo/founder''))
     = Inr (Object ObjectPrototype [(''contact.role'', JStr ''CEO / Founder'')])
   \<and> extractCustomFields (fieldMap example_config)
     (labelled_payload (JStr ''whats your role'') (JStr ''ceo/founder''))
     = Inr (Object ObjectPrototype [(''contact.role'', JStr ''CEO / Founder'')])
   \<and> extractCustomFields (fieldMap example_config)
     (labelled_payload (JStr ''What's   Your Role'') (JStr ''ceo/founder''))
     = Inr (Object ObjectPrototype [(''contact.role'', JStr ''CEO / Founder'')])"
  by code_simp

text \<open>
  C5 (the code at the failing input). The labels \<^verbatim>\<open>What's your role ?\<close> and
  \<^verbatim>\<open>What's your role \<close> (a blank at the end) agree after stripping what is neither word
  character nor white space, lower-casing and collapsing white space. The program trims
  before it strips, so the blank that the stripped question mark leaves at the end of
  the first stays: with the configured label \<^verbatim>\<open>What's your role?\<close> the second label is
  mapped to \<^verbatim>\<open>contact.role\<close> and the first to nothing.
\<close>

theorem trim_before_strip_breaks_match:
  "spec_clean_label ''What's your role ?'' = spec_clean_label ''What's your role ''
   \<and> normalizeLabel ''What's your role ?'' = ''whats your role ''
   \<and> normalizeLabel ''What's your role '' = ''whats your role''
   \<and> fieldMap example_config = [(''what's your role?'', ''contact.role'')]
   \<and> extractCustomFields (fieldMap example_config)
       (labelled_payload (JStr ''What's your role ?'') (JStr ''Other''))
       = Inr (Object ObjectPrototype [])
   \<and> extractCustomFields (fieldMap example_config)
       (labelled_payload (JStr ''What's your role '') (JStr ''Other''))
       = Inr (Object ObjectPrototype [(''contact.role'', JStr ''Other'')])"
  by code_simp

lemma scan_responses_find:
  "list_all readable_entry es \<Longrightarrow>
   scan_responses t es =
     (case find (label_matches t) es of
        None \<Rightarrow> Inr None
      | Some e \<Rightarrow> map_sum id Some (normalizeDropdownValue (get e ''value'')))"
proof (induction es)
  case Nil
  show ?case by simp
next
  case (Cons e es)
  from Cons.prems obtain l where "actualLabel e = Inr l" and "\<not> nullish e"
    by (auto simp: readable_entry_def actualLabel_def split: js.splits)
  with Cons show ?case
    by (auto simp: label_matches_def split: sum.splits)
qed

lemma map_labels_first_match:
  "list_all readable_entry es \<Longrightarrow> map_labels fm es flds = first_match_fields fm es flds"
  by (induction fm es flds rule: map_labels.induct)
     (auto simp: scan_responses_find split: sum.splits option.splits)

text \<open>What the code does keep: on a payload whose response entries are not null and have
  a label that is a string or falsy, the mapper takes, for each configured label in turn,
  the first matching entry, and stores nothing for a label without one. An error of the
  value normalizer or of the assignment still ends the mapping.\<close>

lemma field_mapper_first_match:
  assumes "list_all readable_entry (response_entries payload)"
  shows "extractCustomFields fm payload =
           first_match_fields fm (response_entries payload) (Object ObjectPrototype [])"
  using assms by (simp add: extractCustomFields_entries map_labels_first_match)

lemma field_mapper_first_wins:
  "extractCustomFields [(''what's your role?'', ''contact.role''), (''budget'', ''budget_id'')]
     two_matches_payload
     = Inr (Object ObjectPrototype [(''contact.role'', JStr ''CEO / Founder'')])"
  by code_simp

text \<open>
  C6 (the code at the failing input). A response entry whose label is the number 5: no
  entry matches the configured label \<^verbatim>\<open>role\<close>, and the mapper does not skip the label
  but throws, at \<^verbatim>\<open>.trim()\<close>. And an entry that matches, with the value
  \<^verbatim>\<open>{toString: 1}\<close>: the value normalizer throws and nothing is stored.
\<close>

theorem field_mapper_throws:
  "find (label_matches ''role'') (response_entries (labelled_payload (JNum ''5'') (JStr ''x'')))
     = None
   \<and> isl (extractCustomFields [(''role'', ''k'')] (labelled_payload (JNum ''5'') (JStr ''x'')))
   \<and> find (label_matches ''role'')
       (response_entries (labelled_payload (JStr ''Role'') (JObj [(''toString'', JNum ''1'')])))
     = Some (JObj [(''label'', JStr ''Role''), (''value'', JObj [(''toString'', JNum ''1'')])])
   \<and> isl (extractCustomFields [(''role'', ''k'')]
            (labelled_payload (JStr ''Role'') (JObj [(''toString'', JNum ''1'')])))"
  by code_simp

end
